theory Spec2Isabelle
  imports Complex_Main
begin

section \<open>Python values and string helpers\<close>

text \<open>
  The Reporter of \<^verbatim>\<open>trains/backend_interface/metrics/reporter.py\<close> and the dispatcher
  \<^verbatim>\<open>InterfaceBase._send\<close> of \<^verbatim>\<open>trains/backend_interface/base.py\<close> are embedded as
  functions on explicit state. A method that mutates \<^verbatim>\<open>self\<close> takes the Reporter and
  returns an outcome (returned, or raised with the exception) together with the Reporter
  as the call left it.

  A numpy array is kept as its shape and its flattened cells.
\<close>

datatype ndarray = Ndarray "nat list" "nat list"

text \<open>
  Arguments the code inspects at run time (\<^verbatim>\<open>isinstance\<close>) are dynamically typed values.
\<close>

datatype pyval =
    PNone
  | PBool bool
  | PInt int
  | PFloat real
  | PStr string
  | PList "pyval list"
  | PDict "(string \<times> pyval) list"
  | PArray ndarray

text \<open>\<^verbatim>\<open>isinstance(values, collections.Iterable)\<close>: strings, lists, dicts and arrays are.\<close>

fun is_iterable :: "pyval \<Rightarrow> bool" where
  "is_iterable (PStr s) = True"
| "is_iterable (PList xs) = True"
| "is_iterable (PDict kvs) = True"
| "is_iterable (PArray a) = True"
| "is_iterable PNone = False"
| "is_iterable (PBool b) = False"
| "is_iterable (PInt i) = False"
| "is_iterable (PFloat x) = False"

text \<open>
  A title, a series or a URI is a \<^verbatim>\<open>str\<close> or \<^verbatim>\<open>None\<close>. Python's \<^verbatim>\<open>not x\<close> holds of
  \<^verbatim>\<open>None\<close> and of the empty string.
\<close>

definition falsy :: "string option \<Rightarrow> bool" where
  "falsy x = (x = None \<or> x = Some [])"

text \<open>\<^verbatim>\<open>s.replace(old, new)\<close> for one-character \<^verbatim>\<open>old\<close> and \<^verbatim>\<open>new\<close>.\<close>

definition str_replace :: "char \<Rightarrow> char \<Rightarrow> string \<Rightarrow> string" where
  "str_replace old new s = map (\<lambda>c. if c = old then new else c) s"

text \<open>\<^verbatim>\<open>s.rstrip(c)\<close> for a one-character argument.\<close>

definition rstrip :: "char \<Rightarrow> string \<Rightarrow> string" where
  "rstrip c s = rev (dropWhile (\<lambda>x. x = c) (rev s))"

text \<open>\<^verbatim>\<open>sep.join(parts)\<close>.\<close>

fun join :: "string \<Rightarrow> string list \<Rightarrow> string" where
  "join sep [] = []"
| "join sep [x] = x"
| "join sep (x # y # ys) = x @ sep @ join sep (y # ys)"

text \<open>The generator \<^verbatim>\<open>(x for x in parts if x)\<close> over strings and \<^verbatim>\<open>None\<close>.\<close>

fun truthy_parts :: "string option list \<Rightarrow> string list" where
  "truthy_parts [] = []"
| "truthy_parts (None # xs) = truthy_parts xs"
| "truthy_parts (Some s # xs) = (if s = [] then truthy_parts xs else s # truthy_parts xs)"

section \<open>The dispatcher: \<^verbatim>\<open>InterfaceBase._send\<close>\<close>

text \<open>
  A response carries \<^verbatim>\<open>res.meta\<close> with its \<^verbatim>\<open>result_code\<close>; \<open>meta_str\<close> is what
  \<^verbatim>\<open>'%s' % res.meta\<close> prints.
\<close>

record response_meta =
  result_code :: int
  meta_str :: string

record response =
  meta :: response_meta
  response_data :: string

text \<open>
  A request: whether it is a \<^verbatim>\<open>BatchRequest\<close>, the items of \<^verbatim>\<open>req.to_dict()\<close> as the
  \<^verbatim>\<open>%s\<close> format prints them, and \<^verbatim>\<open>str(req)\<close>.
\<close>

record request =
  is_batch_request :: bool
  to_dict_items :: "(string \<times> string) list"
  request_str :: string

text \<open>Exceptions are values. \<open>SendError\<close> carries the response and the message.\<close>

datatype error =
    ValueError string
  | TypeError string
  | AttributeError string
  | IndexError string
  | SendError response string
  | OtherError string

text \<open>
  What one call of \<^verbatim>\<open>session.send(req, async_enable=...)\<close> does: it returns a response,
  raises \<^verbatim>\<open>requests.exceptions.BaseHTTPError\<close> (with \<^verbatim>\<open>str(e)\<close>), or raises something
  else. The transport is stateful, so a session is a function of the number of calls made
  before, of the request and of the flag.
\<close>

datatype send_outcome =
    SendReturns response
  | SendRaisesHTTPError string
  | SendRaisesOther error

type_synonym session = "nat \<Rightarrow> request \<Rightarrow> bool \<Rightarrow> send_outcome"

datatype log_entry = LogError string | LogInfo string

text \<open>\<^verbatim>\<open>if log: log.error(msg)\<close> and \<^verbatim>\<open>if log: log.info(msg)\<close>: nothing without a logger.\<close>

definition guarded_log :: "log_entry list option \<Rightarrow> log_entry \<Rightarrow> log_entry list option" where
  "guarded_log lg entry = (case lg of None \<Rightarrow> None | Some l \<Rightarrow> Some (l @ [entry]))"

definition error_msg :: "request \<Rightarrow> response \<Rightarrow> string" where
  "error_msg req res =
     (if is_batch_request req then ''Action failed '' @ meta_str (meta res)
      else ''Action failed '' @ meta_str (meta res) @ '' ('' @
           join '', '' (map (\<lambda>(k, v). k @ ''='' @ v) (to_dict_items req)) @ '')'')"

text \<open>
  The loop \<^verbatim>\<open>while True\<close> has no bound in the source, so the model takes fuel: the number of
  iterations it may run. The result \<open>None\<close> says that the loop is still retrying when the
  fuel is spent. The third component counts the calls of \<^verbatim>\<open>session.send\<close>.

  The handler of \<^verbatim>\<open>BaseHTTPError\<close> calls \<^verbatim>\<open>log.error\<close> without the guard
  \<^verbatim>\<open>if log\<close>, so with \<^verbatim>\<open>log=None\<close> it raises \<^verbatim>\<open>AttributeError\<close>.
\<close>

fun priv_send ::
  "nat \<Rightarrow> session \<Rightarrow> request \<Rightarrow> bool \<Rightarrow> bool \<Rightarrow> log_entry list option \<Rightarrow> bool \<Rightarrow> nat
   \<Rightarrow> (error + response) option \<times> log_entry list option \<times> nat" where
  "priv_send 0 sess req ignore_errors raise_on_errors lg async_enable n = (None, lg, n)"
| "priv_send (Suc fuel) sess req ignore_errors raise_on_errors lg async_enable n =
     (case sess n req async_enable of
        SendReturns res \<Rightarrow>
          if result_code (meta res) \<in> {200, 202} \<or> ignore_errors then (Some (Inr res), lg, Suc n)
          else
            let lg1 = guarded_log lg (LogError (error_msg req res)) in
            if result_code (meta res) \<le> 500 then
              (if raise_on_errors then (Some (Inl (SendError res (error_msg req res))), lg1, Suc n)
               else (Some (Inr res), lg1, Suc n))
            else
              priv_send fuel sess req ignore_errors raise_on_errors
                (guarded_log lg1 (LogInfo (''retrying request '' @ request_str req)))
                async_enable (Suc n)
      | SendRaisesHTTPError e \<Rightarrow>
          (case lg of
             None \<Rightarrow>
               (Some (Inl (AttributeError ''NoneType object has no attribute error'')), None, Suc n)
           | Some l \<Rightarrow>
               priv_send fuel sess req ignore_errors raise_on_errors
                 (Some (l @ [LogError (''failed sending '' @ request_str req @ '': '' @ e),
                             LogInfo (''retrying request '' @ request_str req)]))
                 async_enable (Suc n))
      | SendRaisesOther e \<Rightarrow> (Some (Inl e), lg, Suc n))"


section \<open>Events and the Reporter\<close>

text \<open>
  The event classes of \<^verbatim>\<open>.events\<close>, with the keyword arguments the Reporter passes:
  metric, variant, payload and iteration for scalars, vectors and plots; metric, variant,
  iteration and source for \<open>ImageEventNoUpload\<close>; for \<open>ImageEvent\<close> the image data, the
  per-call upload URI, the local path, metric, variant, iteration and the history size.
\<close>

datatype event =
    ScalarEvent "string option" "string option" real int
  | VectorEvent "string option" "string option" pyval int
  | PlotEvent "string option" "string option" pyval int
  | ImageEventNoUpload "string option" "string option" int string
  | ImageEvent "ndarray option" "string option" "string option"
      "string option" "string option" int "int option"

text \<open>
  What \<^verbatim>\<open>Metrics.write_events\<close> hands back: a completed call result, a pending handle of an
  asynchronous write, or nothing.
\<close>

datatype write_result = CallResult response | AsyncResult nat | NoResult

text \<open>
  The calls the Reporter makes on its collaborators, in order, and the entries into
  \<^verbatim>\<open>flush\<close>. The trace is how a theorem says that a write was issued or that a flush
  happened; the code does not read it.
\<close>

datatype call =
    Flush
  | WriteEvents "event list" bool "string option"
  | AddAsyncResult write_result
  | WaitForResults

text \<open>
  The collaborators, as parameters: the \<^verbatim>\<open>storage_key_prefix\<close> of the Metrics manager, its
  \<^verbatim>\<open>write_events\<close> (given the calls made so far, the events, the flag and the storage URI,
  it returns a result or raises), \<^verbatim>\<open>json.dumps\<close> on a dict,
  \<^verbatim>\<open>ImageEvent.get_target_full_upload_uri\<close> (the URL it returns second), and
  \<^verbatim>\<open>create_image_plot\<close>.
\<close>

record env =
  storage_key_prefix :: "string option"
  write_events :: "call list \<Rightarrow> event list \<Rightarrow> bool \<Rightarrow> string option \<Rightarrow> error + write_result"
  json_dumps :: "(string \<times> pyval) list \<Rightarrow> error + string"
  get_target_full_upload_uri :: "event \<Rightarrow> string option \<Rightarrow> string option \<Rightarrow> error + string"
  create_image_plot :: "string \<Rightarrow> string \<Rightarrow> nat \<Rightarrow> nat \<Rightarrow> (string \<times> pyval) list"

text \<open>
  The fields \<^verbatim>\<open>__init__\<close> assigns, the pending results of the asynchronous tracker, and
  the trace.
\<close>

record reporter =
  self_flush_threshold :: int
  self_events :: "event list"
  self_bucket_config :: "string option"
  self_storage_uri :: "string option"
  self_async_enable :: bool
  async_results :: "write_result list"
  calls :: "call list"

datatype outcome = Returned | Raised error

text \<open>
  \<^verbatim>\<open>__init__(metrics, flush_threshold=10, async_enable=False)\<close>. The Metrics manager is
  the \<open>env\<close> the methods take; its session and logger play no part in what follows.
\<close>

definition init :: "int \<Rightarrow> bool \<Rightarrow> reporter" where
  "init flush_threshold async_enable =
     \<lparr> self_flush_threshold = flush_threshold,
       self_events = [],
       self_bucket_config = None,
       self_storage_uri = None,
       self_async_enable = async_enable,
       async_results = [],
       calls = [] \<rparr>"

definition priv_set_storage_uri :: "env \<Rightarrow> string \<Rightarrow> reporter \<Rightarrow> reporter" where
  "priv_set_storage_uri E v r =
     r\<lparr>self_storage_uri :=
         Some (join ''/'' (truthy_parts [Some (rstrip CHR ''/'' v), storage_key_prefix E]))\<rparr>"

text \<open>
  \<^verbatim>\<open>storage_uri = property(None, _set_storage_uri)\<close>: the property has no getter, and
  reading it raises.
\<close>

definition storage_uri :: "reporter \<Rightarrow> error + string option" where
  "storage_uri r = Inl (AttributeError ''unreadable attribute'')"

definition flush_threshold :: "reporter \<Rightarrow> int" where
  "flush_threshold r = self_flush_threshold r"

definition set_flush_threshold :: "int \<Rightarrow> reporter \<Rightarrow> reporter" where
  "set_flush_threshold v r = r\<lparr>self_flush_threshold := max 0 v\<rparr>"

definition async_enable :: "reporter \<Rightarrow> bool" where
  "async_enable r = self_async_enable r"

definition set_async_enable :: "bool \<Rightarrow> reporter \<Rightarrow> reporter" where
  "set_async_enable v r = r\<lparr>self_async_enable := v\<rparr>"

text \<open>
  Modelled from the spec: the asynchronous result tracker (\<^verbatim>\<open>AsyncManagerMixin\<close>, whose
  source is not among the files). It accumulates the handles it is given,
  \<open>get_num_results\<close> counts them, and \<open>wait_for_results\<close> blocks until all resolve and
  then clears the set.
\<close>

definition add_async_result :: "write_result \<Rightarrow> reporter \<Rightarrow> reporter" where
  "add_async_result res r =
     r\<lparr>async_results := async_results r @ [res], calls := calls r @ [AddAsyncResult res]\<rparr>"

definition get_num_results :: "reporter \<Rightarrow> nat" where
  "get_num_results r = length (async_results r)"

definition wait_for_results :: "reporter \<Rightarrow> reporter" where
  "wait_for_results r = r\<lparr>async_results := [], calls := calls r @ [WaitForResults]\<rparr>"

text \<open>
  \<^verbatim>\<open>_write\<close>. An exception of \<^verbatim>\<open>write_events\<close> leaves the method before
  \<^verbatim>\<open>self._events = []\<close> runs.
\<close>

definition priv_write :: "env \<Rightarrow> reporter \<Rightarrow> outcome \<times> reporter" where
  "priv_write E r =
     (if self_events r = [] then (Returned, r)
      else
        let r1 = r\<lparr>calls := calls r @
                   [WriteEvents (self_events r) (self_async_enable r) (self_storage_uri r)]\<rparr> in
        case write_events E (calls r) (self_events r) (self_async_enable r) (self_storage_uri r) of
          Inl e \<Rightarrow> (Raised e, r1)
        | Inr res \<Rightarrow>
            let r2 = (if self_async_enable r1 then add_async_result res r1 else r1) in
            (Returned, r2\<lparr>self_events := []\<rparr>))"

definition priv_report :: "env \<Rightarrow> event \<Rightarrow> reporter \<Rightarrow> outcome \<times> reporter" where
  "priv_report E ev r =
     (let r1 = r\<lparr>self_events := self_events r @ [ev]\<rparr> in
      if self_flush_threshold r1 \<le> int (length (self_events r1)) then priv_write E r1
      else (Returned, r1))"

definition flush :: "env \<Rightarrow> reporter \<Rightarrow> outcome \<times> reporter" where
  "flush E r =
     (case priv_write E (r\<lparr>calls := calls r @ [Flush]\<rparr>) of
        (Raised e, r1) \<Rightarrow> (Raised e, r1)
      | (Returned, r1) \<Rightarrow>
          if 0 < get_num_results r1 then (Returned, wait_for_results r1) else (Returned, r1))"

definition priv_normalize_name :: "string option \<Rightarrow> string option" where
  "priv_normalize_name name =
     (if falsy name then name
      else map_option (\<lambda>s. str_replace CHR ''.'' CHR ''/'' (str_replace CHR ''$'' CHR ''/'' s)) name)"

definition report_scalar ::
  "env \<Rightarrow> string option \<Rightarrow> string option \<Rightarrow> real \<Rightarrow> int \<Rightarrow> reporter \<Rightarrow> outcome \<times> reporter" where
  "report_scalar E title series v iter r =
     priv_report E (ScalarEvent (priv_normalize_name title) (priv_normalize_name series) v iter) r"

definition report_vector ::
  "env \<Rightarrow> string option \<Rightarrow> string option \<Rightarrow> pyval \<Rightarrow> int \<Rightarrow> reporter \<Rightarrow> outcome \<times> reporter" where
  "report_vector E title series vs iter r =
     (if \<not> is_iterable vs then (Raised (ValueError ''values: expected an iterable''), r)
      else priv_report E
             (VectorEvent (priv_normalize_name title) (priv_normalize_name series) vs iter) r)"

definition report_plot ::
  "env \<Rightarrow> string option \<Rightarrow> string option \<Rightarrow> pyval \<Rightarrow> int \<Rightarrow> reporter \<Rightarrow> outcome \<times> reporter" where
  "report_plot E title series plot iter r =
     (case plot of
        PDict d \<Rightarrow>
          (case json_dumps E d of
             Inl e \<Rightarrow> (Raised e, r)
           | Inr s \<Rightarrow>
               priv_report E
                 (PlotEvent (priv_normalize_name title) (priv_normalize_name series) (PStr s) iter) r)
      | PStr s \<Rightarrow>
          priv_report E
            (PlotEvent (priv_normalize_name title) (priv_normalize_name series) (PStr s) iter) r
      | _ \<Rightarrow> (Raised (ValueError ''Plot should be a string or a dict''), r))"

definition report_image ::
  "env \<Rightarrow> string option \<Rightarrow> string option \<Rightarrow> string \<Rightarrow> int \<Rightarrow> reporter \<Rightarrow> outcome \<times> reporter" where
  "report_image E title series src iter r =
     priv_report E
       (ImageEventNoUpload (priv_normalize_name title) (priv_normalize_name series) iter src) r"

text \<open>\<^verbatim>\<open>len([x for x in (path, matrix) if x is not None])\<close>.\<close>

definition supplied :: "string option \<Rightarrow> ndarray option \<Rightarrow> nat" where
  "supplied path matrix = length (filter (\<lambda>b. b) [path \<noteq> None, matrix \<noteq> None])"

definition report_image_and_upload ::
  "env \<Rightarrow> string option \<Rightarrow> string option \<Rightarrow> int \<Rightarrow> string option \<Rightarrow> ndarray option
   \<Rightarrow> string option \<Rightarrow> int option \<Rightarrow> reporter \<Rightarrow> outcome \<times> reporter" where
  "report_image_and_upload E title series iter path matrix upload_uri max_image_history r =
     (if falsy (self_storage_uri r) \<and> falsy upload_uri then
        (Raised (ValueError ''Upload configuration is required (use setup_upload())''), r)
      else if supplied path matrix \<noteq> 1 then
        (Raised (ValueError ''Expected only one of [filename, matrix]''), r)
      else
        priv_report E
          (ImageEvent matrix upload_uri path
             (priv_normalize_name title) (priv_normalize_name series) iter max_image_history) r)"

text \<open>
  \<^verbatim>\<open>__exit__(exc_type, exc_val, exc_tb)\<close>: \<open>exc_type\<close> is the name of the exception's class,
  or \<open>None\<close> when the block ended normally. The method returns \<^verbatim>\<open>None\<close> on both paths.
\<close>

definition dunder_exit :: "env \<Rightarrow> string option \<Rightarrow> reporter \<Rightarrow> outcome \<times> reporter" where
  "dunder_exit E exc_type r = (if exc_type = None then flush E r else (Returned, r))"

text \<open>
  \<^verbatim>\<open>matrix.shape[k] if matrix is not None else d\<close>: indexing the shape tuple out of range
  raises \<^verbatim>\<open>IndexError\<close>.
\<close>

definition shape_or :: "ndarray option \<Rightarrow> nat \<Rightarrow> nat \<Rightarrow> error + nat" where
  "shape_or matrix k d =
     (case matrix of
        None \<Rightarrow> Inr d
      | Some (Ndarray sh cells) \<Rightarrow>
          if k < length sh then Inr (sh ! k) else Inl (IndexError ''tuple index out of range''))"

text \<open>\<^verbatim>\<open>title + '/' + series\<close>: concatenation with \<^verbatim>\<open>None\<close> raises \<^verbatim>\<open>TypeError\<close>.\<close>

definition title_slash_series :: "string option \<Rightarrow> string option \<Rightarrow> error + string" where
  "title_slash_series title series =
     (case (title, series) of
        (Some t, Some s) \<Rightarrow> Inr (t @ ''/'' @ s)
      | _ \<Rightarrow> Inl (TypeError ''unsupported operand type(s) for +''))"

definition report_image_plot_and_upload ::
  "env \<Rightarrow> string option \<Rightarrow> string option \<Rightarrow> int \<Rightarrow> string option \<Rightarrow> ndarray option
   \<Rightarrow> string option \<Rightarrow> int option \<Rightarrow> reporter \<Rightarrow> outcome \<times> reporter" where
  "report_image_plot_and_upload E title series iter path matrix upload_uri max_image_history r =
     (if falsy upload_uri \<and> falsy (self_storage_uri r) then
        (Raised (ValueError ''Upload configuration is required (use setup_upload())''), r)
      else if supplied path matrix \<noteq> 1 then
        (Raised (ValueError ''Expected only one of [filename, matrix]''), r)
      else
        let ev = ImageEvent matrix upload_uri path
                   (priv_normalize_name title) (priv_normalize_name series) iter max_image_history
        in
        case get_target_full_upload_uri E ev
               (if falsy upload_uri then self_storage_uri r else upload_uri)
               (storage_key_prefix E) of
          Inl e \<Rightarrow> (Raised e, r)
        | Inr url \<Rightarrow>
            (case priv_report E ev r of
               (Raised e, r1) \<Rightarrow> (Raised e, r1)
             | (Returned, r1) \<Rightarrow>
                 (case title_slash_series title series of
                    Inl e \<Rightarrow> (Raised e, r1)
                  | Inr ts \<Rightarrow>
                      (case shape_or matrix 1 640 of
                         Inl e \<Rightarrow> (Raised e, r1)
                       | Inr w \<Rightarrow>
                           (case shape_or matrix 0 480 of
                              Inl e \<Rightarrow> (Raised e, r1)
                            | Inr h \<Rightarrow>
                                report_plot E (priv_normalize_name title)
                                  (priv_normalize_name series)
                                  (PDict (create_image_plot E url ts w h)) iter r1)))))"

text \<open>
  The chart reporters call a chart builder of \<^verbatim>\<open>plotly_reporter\<close> and pass its dict to
  \<^verbatim>\<open>report_plot\<close>. The builders are outside the files; each reporter is modelled from the
  point where its builder has returned the dict \<open>plotly_dict\<close>. No field of the Reporter is
  assigned before that point. \<^verbatim>\<open>report_value_surface\<close> passes \<^verbatim>\<open>title + '/' + series\<close>
  to its builder, which raises before the builder runs when one of them is \<^verbatim>\<open>None\<close>.
\<close>

definition report_histogram ::
  "env \<Rightarrow> string option \<Rightarrow> string option \<Rightarrow> (string \<times> pyval) list \<Rightarrow> int \<Rightarrow> reporter
   \<Rightarrow> outcome \<times> reporter" where
  "report_histogram E title series plotly_dict iter r =
     report_plot E (priv_normalize_name title) (priv_normalize_name series)
       (PDict plotly_dict) iter r"

definition report_line_plot ::
  "env \<Rightarrow> string option \<Rightarrow> (string \<times> pyval) list \<Rightarrow> int \<Rightarrow> reporter \<Rightarrow> outcome \<times> reporter" where
  "report_line_plot E title plotly_dict iter r =
     report_plot E (priv_normalize_name title) (Some []) (PDict plotly_dict) iter r"

definition report_2d_scatter ::
  "env \<Rightarrow> string option \<Rightarrow> string option \<Rightarrow> (string \<times> pyval) list \<Rightarrow> int \<Rightarrow> reporter
   \<Rightarrow> outcome \<times> reporter" where
  "report_2d_scatter E title series plotly_dict iter r =
     report_plot E (priv_normalize_name title) (priv_normalize_name series)
       (PDict plotly_dict) iter r"

text \<open>
  \<^verbatim>\<open>report_3d_scatter\<close> takes one series name (\<open>Inl\<close>) or a list of names (\<open>Inr\<close>), and
  passes \<^verbatim>\<open>None\<close> as the series for a list.
\<close>

definition report_3d_scatter ::
  "env \<Rightarrow> string option \<Rightarrow> string option + string list \<Rightarrow> (string \<times> pyval) list \<Rightarrow> int
   \<Rightarrow> reporter \<Rightarrow> outcome \<times> reporter" where
  "report_3d_scatter E title series plotly_obj iter r =
     report_plot E (priv_normalize_name title)
       (case series of Inl s \<Rightarrow> priv_normalize_name s | Inr names \<Rightarrow> None)
       (PDict plotly_obj) iter r"

definition report_value_matrix ::
  "env \<Rightarrow> string option \<Rightarrow> string option \<Rightarrow> (string \<times> pyval) list \<Rightarrow> int \<Rightarrow> reporter
   \<Rightarrow> outcome \<times> reporter" where
  "report_value_matrix E title series plotly_dict iter r =
     report_plot E (priv_normalize_name title) (priv_normalize_name series)
       (PDict plotly_dict) iter r"

definition report_value_surface ::
  "env \<Rightarrow> string option \<Rightarrow> string option \<Rightarrow> (string \<times> pyval) list \<Rightarrow> int \<Rightarrow> reporter
   \<Rightarrow> outcome \<times> reporter" where
  "report_value_surface E title series plotly_dict iter r =
     (case title_slash_series title series of
        Inl e \<Rightarrow> (Raised e, r)
      | Inr ts \<Rightarrow>
          report_plot E (priv_normalize_name title) (priv_normalize_name series)
            (PDict plotly_dict) iter r)"

section \<open>Callers\<close>

text \<open>
  One operation of the public interface, with its arguments, and a caller that performs a
  list of them in order. The caller goes on after an operation that raised (it caught the
  exception), so the states \<open>exec\<close> reaches from \<open>init\<close> are all the states a Reporter can
  be in.
\<close>

datatype operation =
    ReportScalar "string option" "string option" real int
  | ReportVector "string option" "string option" pyval int
  | ReportPlot "string option" "string option" pyval int
  | ReportImage "string option" "string option" string int
  | ReportImageAndUpload "string option" "string option" int "string option" "ndarray option"
      "string option" "int option"
  | ReportImagePlotAndUpload "string option" "string option" int "string option"
      "ndarray option" "string option" "int option"
  | ReportHistogram "string option" "string option" "(string \<times> pyval) list" int
  | ReportLinePlot "string option" "(string \<times> pyval) list" int
  | Report2dScatter "string option" "string option" "(string \<times> pyval) list" int
  | Report3dScatter "string option" "string option + string list" "(string \<times> pyval) list" int
  | ReportValueMatrix "string option" "string option" "(string \<times> pyval) list" int
  | ReportValueSurface "string option" "string option" "(string \<times> pyval) list" int
  | CallFlush
  | SetFlushThreshold int
  | SetAsyncEnable bool
  | SetStorageUri string
  | ExitScope "string option"

fun step :: "env \<Rightarrow> operation \<Rightarrow> reporter \<Rightarrow> outcome \<times> reporter" where
  "step E (ReportScalar t s v i) r = report_scalar E t s v i r"
| "step E (ReportVector t s vs i) r = report_vector E t s vs i r"
| "step E (ReportPlot t s p i) r = report_plot E t s p i r"
| "step E (ReportImage t s src i) r = report_image E t s src i r"
| "step E (ReportImageAndUpload t s i p m u h) r = report_image_and_upload E t s i p m u h r"
| "step E (ReportImagePlotAndUpload t s i p m u h) r =
     report_image_plot_and_upload E t s i p m u h r"
| "step E (ReportHistogram t s d i) r = report_histogram E t s d i r"
| "step E (ReportLinePlot t d i) r = report_line_plot E t d i r"
| "step E (Report2dScatter t s d i) r = report_2d_scatter E t s d i r"
| "step E (Report3dScatter t s d i) r = report_3d_scatter E t s d i r"
| "step E (ReportValueMatrix t s d i) r = report_value_matrix E t s d i r"
| "step E (ReportValueSurface t s d i) r = report_value_surface E t s d i r"
| "step E CallFlush r = flush E r"
| "step E (SetFlushThreshold v) r = (Returned, set_flush_threshold v r)"
| "step E (SetAsyncEnable v) r = (Returned, set_async_enable v r)"
| "step E (SetStorageUri v) r = (Returned, priv_set_storage_uri E v r)"
| "step E (ExitScope exc_type) r = dunder_exit E exc_type r"

fun exec :: "env \<Rightarrow> operation list \<Rightarrow> reporter \<Rightarrow> reporter" where
  "exec E [] r = r"
| "exec E (x # xs) r = exec E xs (snd (step E x r))"

text \<open>
  Well-formedness of a buffered event, as the checks of the reporting entry points state
  it: a vector event holds an iterable, a plot event holds a string, and an image event
  with upload has exactly one of the local path and the image data.
\<close>

fun well_formed :: "event \<Rightarrow> bool" where
  "well_formed (ScalarEvent m v x i) = True"
| "well_formed (VectorEvent m v vs i) = is_iterable vs"
| "well_formed (PlotEvent m v p i) = (case p of PStr s \<Rightarrow> True | _ \<Rightarrow> False)"
| "well_formed (ImageEventNoUpload m v i src) = True"
| "well_formed (ImageEvent image_data uri path m v i h) = (supplied path image_data = 1)"

text \<open>The number of \<^verbatim>\<open>write_events\<close> calls in a trace.\<close>

definition writes :: "call list \<Rightarrow> nat" where
  "writes cs = length (filter (\<lambda>c. case c of WriteEvents evs a u \<Rightarrow> True | _ \<Rightarrow> False) cs)"

section \<open>Example inputs\<close>

text \<open>
  Concrete responses, requests, sessions and collaborators, for evaluating the definitions:
  a response with a given result code, a batch request, a session that answers its calls
  from a list, a Metrics manager whose \<^verbatim>\<open>write_events\<close> returns a given result, and one
  whose \<^verbatim>\<open>write_events\<close> raises.
\<close>

definition resp :: "int \<Rightarrow> response" where
  "resp c = \<lparr> meta = \<lparr> result_code = c, meta_str = ''meta'' \<rparr>, response_data = [] \<rparr>"

definition batch_req :: request where
  "batch_req = \<lparr> is_batch_request = True, to_dict_items = [], request_str = ''req'' \<rparr>"

definition session_of :: "send_outcome list \<Rightarrow> session" where
  "session_of outs n req ae = (if n < length outs then outs ! n else last outs)"

definition env_returning :: "write_result \<Rightarrow> env" where
  "env_returning res =
     \<lparr> storage_key_prefix = None,
       write_events = (\<lambda>cs evs a u. Inr res),
       json_dumps = (\<lambda>d. Inr ''{}''),
       get_target_full_upload_uri = (\<lambda>ev u p. Inr ''url''),
       create_image_plot = (\<lambda>url t w h. []) \<rparr>"

definition env_raising :: "error \<Rightarrow> env" where
  "env_raising e =
     \<lparr> storage_key_prefix = Some ''prefix'',
       write_events = (\<lambda>cs evs a u. Inl e),
       json_dumps = (\<lambda>d. Inr ''{}''),
       get_target_full_upload_uri = (\<lambda>ev u p. Inr ''url''),
       create_image_plot = (\<lambda>url t w h. []) \<rparr>"

text \<open>A scalar event of the metric \<open>loss\<close>, variant \<open>train\<close>.\<close>

definition loss :: "real \<Rightarrow> int \<Rightarrow> event" where
  "loss v i = ScalarEvent (Some ''loss'') (Some ''train'') v i"

text \<open>An image of two rows and three columns with three channels.\<close>

definition pixels :: ndarray where
  "pixels = Ndarray [2, 3, 3] (replicate 18 0)"





section \<open>Event normalization\<close>

lemma str_replace_length: "length (str_replace old new s) = length s"
  by (simp add: str_replace_def)

lemma normalize_some:
  "priv_normalize_name (Some s) =
     Some (map (\<lambda>c. if c = CHR ''$'' \<or> c = CHR ''.'' then CHR ''/'' else c) s)"
  by (auto simp: priv_normalize_name_def falsy_def str_replace_def)

text \<open>
  Claim C9. \<^verbatim>\<open>_normalize_name\<close> returns a falsy name (\<^verbatim>\<open>None\<close>, the empty string) as it
  is. On any other string the result has the same length, holds \<open>/\<close> wherever the input
  holds \<open>$\<close> or \<open>.\<close>, and the input's character everywhere else; \<open>a.b$c\<close> becomes \<open>a/b/c\<close>.
\<close>

theorem normalize_name_spec:
  "priv_normalize_name None = None \<and>
   priv_normalize_name (Some []) = Some [] \<and>
   priv_normalize_name (Some ''a.b$c'') = Some ''a/b/c'' \<and>
   (\<exists>t. priv_normalize_name (Some s) = Some t \<and> length t = length s \<and>
        (\<forall>i < length s.
           t ! i = (if s ! i = CHR ''$'' \<or> s ! i = CHR ''.'' then CHR ''/'' else s ! i)))"
  by (simp add: normalize_some) (simp add: priv_normalize_name_def falsy_def)

theorem normalize_name_spec_witness:
  "priv_normalize_name (Some ''x$y.z'') = Some ''x/y/z''"
  using normalize_name_spec [of "''x$y.z''"] by (simp add: normalize_some)

section \<open>The dispatcher\<close>

text \<open>
  Claim C5. When the transport returns a response: with result code 200 or 202, or with
  \<open>ignore_errors\<close>, \<^verbatim>\<open>_send\<close> returns it at once and logs nothing; otherwise, with a code
  of at most 500, it logs the message and raises \<open>SendError\<close> with the response and the
  message when \<open>raise_on_errors\<close> holds, and returns the response as it is when not.
\<close>

theorem dispatcher_classifies:
  assumes "sess n req ae = SendReturns res"
  shows
  "(result_code (meta res) \<in> {200, 202} \<or> ie \<longrightarrow>
      priv_send (Suc fuel) sess req ie roe lg ae n = (Some (Inr res), lg, Suc n)) \<and>
   (\<not> (result_code (meta res) \<in> {200, 202} \<or> ie) \<and> result_code (meta res) \<le> 500 \<and> roe \<longrightarrow>
      priv_send (Suc fuel) sess req ie roe lg ae n =
        (Some (Inl (SendError res (error_msg req res))),
         guarded_log lg (LogError (error_msg req res)), Suc n)) \<and>
   (\<not> (result_code (meta res) \<in> {200, 202} \<or> ie) \<and> result_code (meta res) \<le> 500 \<and> \<not> roe \<longrightarrow>
      priv_send (Suc fuel) sess req ie roe lg ae n =
        (Some (Inr res), guarded_log lg (LogError (error_msg req res)), Suc n))"
  using assms by (simp add: Let_def)

theorem dispatcher_classifies_witness:
  "priv_send 1 (session_of [SendReturns (resp 404)]) batch_req False True (Some []) False 0 =
     (Some (Inl (SendError (resp 404) ''Action failed meta'')),
      Some [LogError ''Action failed meta''], 1) \<and>
   priv_send 1 (session_of [SendReturns (resp 404)]) batch_req False False (Some []) False 0 =
     (Some (Inr (resp 404)), Some [LogError ''Action failed meta''], 1) \<and>
   priv_send 1 (session_of [SendReturns (resp 202)]) batch_req False True (Some []) False 0 =
     (Some (Inr (resp 202)), Some [], 1)"
proof -
  have a: "session_of [SendReturns (resp 404)] 0 batch_req False = SendReturns (resp 404)"
    by (simp add: session_of_def)
  have b: "session_of [SendReturns (resp 202)] 0 batch_req False = SendReturns (resp 202)"
    by (simp add: session_of_def)
  have m: "error_msg batch_req (resp 404) = ''Action failed meta''"
    by (simp add: error_msg_def batch_req_def resp_def)
  have c: "result_code (meta (resp 404)) = 404" "result_code (meta (resp 202)) = 202"
    by (simp_all add: resp_def)
  show ?thesis
    using
      dispatcher_classifies [where sess = "session_of [SendReturns (resp 404)]" and n = 0
        and req = batch_req and ae = False and res = "resp 404" and ie = False and roe = True
        and fuel = 0 and lg = "Some []"]
      dispatcher_classifies [where sess = "session_of [SendReturns (resp 404)]" and n = 0
        and req = batch_req and ae = False and res = "resp 404" and ie = False and roe = False
        and fuel = 0 and lg = "Some []"]
      dispatcher_classifies [where sess = "session_of [SendReturns (resp 202)]" and n = 0
        and req = batch_req and ae = False and res = "resp 202" and ie = False and roe = True
        and fuel = 0 and lg = "Some []"]
    by (simp add: a b m c guarded_log_def)
qed




section \<open>The event buffer and the flush controller\<close>

lemma priv_write_empty: "self_events r = [] \<Longrightarrow> priv_write E r = (Returned, r)"
  by (simp add: priv_write_def)

lemma priv_write_returns:
  "self_events r \<noteq> [] \<Longrightarrow>
   write_events E (calls r) (self_events r) (self_async_enable r) (self_storage_uri r) = Inr res \<Longrightarrow>
   priv_write E r =
     (Returned,
      r\<lparr>self_events := [],
        async_results := async_results r @ (if self_async_enable r then [res] else []),
        calls := calls r @
          WriteEvents (self_events r) (self_async_enable r) (self_storage_uri r) #
          (if self_async_enable r then [AddAsyncResult res] else [])\<rparr>)"
  by (simp add: priv_write_def Let_def add_async_result_def)

lemma priv_write_raises:
  "self_events r \<noteq> [] \<Longrightarrow>
   write_events E (calls r) (self_events r) (self_async_enable r) (self_storage_uri r) = Inl e \<Longrightarrow>
   priv_write E r =
     (Raised e,
      r\<lparr>calls := calls r @
          [WriteEvents (self_events r) (self_async_enable r) (self_storage_uri r)]\<rparr>)"
  by (simp add: priv_write_def Let_def)

text \<open>
  Claim C2, amended. \<^verbatim>\<open>_write\<close> on an empty buffer returns and changes nothing. On a
  non-empty buffer it calls \<^verbatim>\<open>write_events\<close> with the whole buffer, \<open>async_enable\<close> and
  the storage URI. When that call returns, whatever result it returns, the result is
  registered with the tracker if \<open>async_enable\<close> holds and the buffer is left empty. When
  that call raises, the exception leaves \<^verbatim>\<open>_write\<close>, nothing is registered and the buffer
  stays as it was.
\<close>

theorem write_spec:
  "(self_events r = [] \<longrightarrow> priv_write E r = (Returned, r)) \<and>
   (self_events r \<noteq> [] \<and>
    write_events E (calls r) (self_events r) (self_async_enable r) (self_storage_uri r) = Inr res
    \<longrightarrow>
      priv_write E r =
        (Returned,
         r\<lparr>self_events := [],
           async_results := async_results r @ (if self_async_enable r then [res] else []),
           calls := calls r @
             WriteEvents (self_events r) (self_async_enable r) (self_storage_uri r) #
             (if self_async_enable r then [AddAsyncResult res] else [])\<rparr>)) \<and>
   (self_events r \<noteq> [] \<and>
    write_events E (calls r) (self_events r) (self_async_enable r) (self_storage_uri r) = Inl e
    \<longrightarrow>
      priv_write E r =
        (Raised e,
         r\<lparr>calls := calls r @
             [WriteEvents (self_events r) (self_async_enable r) (self_storage_uri r)]\<rparr>))"
  using priv_write_empty priv_write_returns priv_write_raises by blast

text \<open>
  The claim C2 as stated fails for a write that fails by raising: the buffer still holds
  its event after \<^verbatim>\<open>_write\<close>.
\<close>

theorem write_spec_counterexample:
  "fst (priv_write (env_raising (SendError (resp 500) ''Action failed meta''))
          ((init 10 False)\<lparr>self_events := [loss 0.5 1]\<rparr>)) =
     Raised (SendError (resp 500) ''Action failed meta'') \<and>
   self_events (snd (priv_write (env_raising (SendError (resp 500) ''Action failed meta''))
          ((init 10 False)\<lparr>self_events := [loss 0.5 1]\<rparr>))) = [loss 0.5 1] \<and>
   [loss 0.5 1] \<noteq> []"
  by (simp add: priv_write_def env_raising_def init_def Let_def)

theorem write_spec_witness:
  "priv_write (env_returning (CallResult (resp 500))) (init 10 False) =
     (Returned, init 10 False) \<and>
   priv_write (env_returning (CallResult (resp 500)))
     ((init 10 False)\<lparr>self_events := [loss 0.5 1]\<rparr>) =
     (Returned, (init 10 False)\<lparr>calls := [WriteEvents [loss 0.5 1] False None]\<rparr>) \<and>
   priv_write (env_returning (AsyncResult 7))
     ((init 10 True)\<lparr>self_events := [loss 0.5 1]\<rparr>) =
     (Returned, (init 10 True)\<lparr>async_results := [AsyncResult 7],
        calls := [WriteEvents [loss 0.5 1] True None, AddAsyncResult (AsyncResult 7)]\<rparr>) \<and>
   priv_write (env_raising (OtherError ''upload failed''))
     ((init 10 False)\<lparr>self_events := [loss 0.5 1]\<rparr>) =
     (Raised (OtherError ''upload failed''),
      (init 10 False)\<lparr>self_events := [loss 0.5 1],
        calls := [WriteEvents [loss 0.5 1] False None]\<rparr>)"
  using
    write_spec [of "init 10 False" "env_returning (CallResult (resp 500))"]
    write_spec [of "(init 10 False)\<lparr>self_events := [loss 0.5 1]\<rparr>"
      "env_returning (CallResult (resp 500))" "CallResult (resp 500)"]
    write_spec [of "(init 10 True)\<lparr>self_events := [loss 0.5 1]\<rparr>"
      "env_returning (AsyncResult 7)" "AsyncResult 7"]
    write_spec [of "(init 10 False)\<lparr>self_events := [loss 0.5 1]\<rparr>"
      "env_raising (OtherError ''upload failed'')" _ "OtherError ''upload failed''"]
  by (simp add: init_def env_returning_def env_raising_def)

lemma writes_append: "writes (cs @ ds) = writes cs + writes ds"
  by (simp add: writes_def)

lemma writes_simps:
  "writes [] = 0"
  "writes (WriteEvents evs a u # cs) = Suc (writes cs)"
  "writes (AddAsyncResult res # cs) = writes cs"
  "writes (WaitForResults # cs) = writes cs"
  "writes (Flush # cs) = writes cs"
  by (simp_all add: writes_def)

text \<open>What a write on a non-empty buffer leaves, whatever \<open>write_events\<close> does.\<close>

lemma priv_write_nonempty:
  assumes "self_events r \<noteq> []" and "priv_write E r = (out, r')"
  shows "writes (calls r') = Suc (writes (calls r))"
    and "\<exists>rest. calls r' =
           calls r @ WriteEvents (self_events r) (self_async_enable r) (self_storage_uri r) # rest"
    and "out = Returned \<Longrightarrow> self_events r' = []"
    and "self_flush_threshold r' = self_flush_threshold r"
    and "set (self_events r') \<subseteq> set (self_events r)"
proof -
  let ?w = "write_events E (calls r) (self_events r) (self_async_enable r) (self_storage_uri r)"
  have "writes (calls r') = Suc (writes (calls r)) \<and>
        (\<exists>rest. calls r' =
           calls r @ WriteEvents (self_events r) (self_async_enable r) (self_storage_uri r) # rest) \<and>
        (out = Returned \<longrightarrow> self_events r' = []) \<and>
        self_flush_threshold r' = self_flush_threshold r \<and>
        set (self_events r') \<subseteq> set (self_events r)"
  proof (cases ?w)
    case (Inl e)
    from priv_write_raises [OF assms(1) Inl] assms(2) show ?thesis
      by (auto simp: writes_append writes_simps)
  next
    case (Inr res)
    from priv_write_returns [OF assms(1) Inr] assms(2) show ?thesis
      by (auto simp: writes_append writes_simps)
  qed
  then show "writes (calls r') = Suc (writes (calls r))"
    and "\<exists>rest. calls r' =
           calls r @ WriteEvents (self_events r) (self_async_enable r) (self_storage_uri r) # rest"
    and "out = Returned \<Longrightarrow> self_events r' = []"
    and "self_flush_threshold r' = self_flush_threshold r"
    and "set (self_events r') \<subseteq> set (self_events r)"
    by auto
qed

lemma priv_report_below:
  "int (length (self_events r)) + 1 < self_flush_threshold r \<Longrightarrow>
   priv_report E ev r = (Returned, r\<lparr>self_events := self_events r @ [ev]\<rparr>)"
  by (simp add: priv_report_def Let_def)

lemma priv_report_reached:
  "self_flush_threshold r \<le> int (length (self_events r)) + 1 \<Longrightarrow>
   priv_report E ev r = priv_write E (r\<lparr>self_events := self_events r @ [ev]\<rparr>)"
  by (simp add: priv_report_def Let_def)


section \<open>The storage URI\<close>

lemma takeWhile_eq_all: "takeWhile (\<lambda>x. x = c) xs = replicate (length (takeWhile (\<lambda>x. x = c) xs)) c"
  by (induction xs) auto

lemma rstrip_decomp: "\<exists>n. v = rstrip c v @ replicate n c"
proof -
  let ?P = "\<lambda>x. x = c"
  have "rev (takeWhile ?P (rev v) @ dropWhile ?P (rev v)) = v"
    by (simp only: takeWhile_dropWhile_id rev_rev_ident)
  then have "v = rev (dropWhile ?P (rev v)) @ rev (takeWhile ?P (rev v))"
    by (simp only: rev_append)
  moreover have "rev (takeWhile ?P (rev v)) = replicate (length (takeWhile ?P (rev v))) c"
    using takeWhile_eq_all [of c "rev v"] by (metis rev_replicate)
  ultimately have "v = rstrip c v @ replicate (length (takeWhile ?P (rev v))) c"
    by (simp add: rstrip_def)
  then show ?thesis ..
qed

lemma rstrip_no_trailing: "rstrip c v = [] \<or> last (rstrip c v) \<noteq> c"
proof (cases "dropWhile (\<lambda>x. x = c) (rev v)")
  case Nil
  then show ?thesis by (simp add: rstrip_def)
next
  case (Cons y ys)
  then have "y \<noteq> c" using hd_dropWhile [of "\<lambda>x. x = c" "rev v"] by simp
  with Cons show ?thesis by (simp add: rstrip_def)
qed

text \<open>
  Claim C10. The setter of \<^verbatim>\<open>storage_uri\<close> stores the value without its trailing
  slashes, joined by a slash with the \<^verbatim>\<open>storage_key_prefix\<close> of the Metrics manager, where
  an empty part (and a prefix that is \<^verbatim>\<open>None\<close>) is left out; it changes no other field.
  The property has no getter: reading it raises.
\<close>

theorem set_storage_uri_spec:
  "(\<exists>n. v = rstrip CHR ''/'' v @ replicate n CHR ''/'') \<and>
   (rstrip CHR ''/'' v = [] \<or> last (rstrip CHR ''/'' v) \<noteq> CHR ''/'') \<and>
   (rstrip CHR ''/'' v \<noteq> [] \<and> storage_key_prefix E = Some p \<and> p \<noteq> [] \<longrightarrow>
      self_storage_uri (priv_set_storage_uri E v r) = Some (rstrip CHR ''/'' v @ ''/'' @ p)) \<and>
   (rstrip CHR ''/'' v \<noteq> [] \<and> falsy (storage_key_prefix E) \<longrightarrow>
      self_storage_uri (priv_set_storage_uri E v r) = Some (rstrip CHR ''/'' v)) \<and>
   (rstrip CHR ''/'' v = [] \<and> storage_key_prefix E = Some p \<and> p \<noteq> [] \<longrightarrow>
      self_storage_uri (priv_set_storage_uri E v r) = Some p) \<and>
   (rstrip CHR ''/'' v = [] \<and> falsy (storage_key_prefix E) \<longrightarrow>
      self_storage_uri (priv_set_storage_uri E v r) = Some []) \<and>
   priv_set_storage_uri E v r = r\<lparr>self_storage_uri := self_storage_uri (priv_set_storage_uri E v r)\<rparr> \<and>
   storage_uri (priv_set_storage_uri E v r) = Inl (AttributeError ''unreadable attribute'')"
proof -
  have "falsy (storage_key_prefix E) \<Longrightarrow>
        truthy_parts [storage_key_prefix E] = []"
    by (auto simp: falsy_def)
  then show ?thesis
    using rstrip_decomp [of v "CHR ''/''"] rstrip_no_trailing [of "CHR ''/''" v]
    by (auto simp: priv_set_storage_uri_def storage_uri_def falsy_def)
qed

theorem set_storage_uri_spec_witness:
  "self_storage_uri (priv_set_storage_uri (env_raising (OtherError [])) ''s3://bucket/dir//''
     (init 10 False)) = Some ''s3://bucket/dir/prefix'' \<and>
   self_storage_uri (priv_set_storage_uri (env_returning NoResult) ''s3://bucket/dir/''
     (init 10 False)) = Some ''s3://bucket/dir'' \<and>
   self_storage_uri (priv_set_storage_uri (env_raising (OtherError [])) ''///''
     (init 10 False)) = Some ''prefix'' \<and>
   self_storage_uri (priv_set_storage_uri (env_returning NoResult) []
     (init 10 False)) = Some []"
proof -
  have a: "rstrip CHR ''/'' ''s3://bucket/dir//'' = ''s3://bucket/dir''"
    "rstrip CHR ''/'' ''s3://bucket/dir/'' = ''s3://bucket/dir''"
    "rstrip CHR ''/'' ''///'' = []" "rstrip CHR ''/'' [] = []"
    by (simp_all add: rstrip_def)
  have b: "storage_key_prefix (env_raising (OtherError [])) = Some ''prefix''"
    "storage_key_prefix (env_returning NoResult) = None"
    by (simp_all add: env_raising_def env_returning_def)
  show ?thesis
    using
      set_storage_uri_spec [of "''s3://bucket/dir//''" "env_raising (OtherError [])" "''prefix''"
        "init 10 False"]
      set_storage_uri_spec [of "''s3://bucket/dir/''" "env_returning NoResult" "''prefix''"
        "init 10 False"]
      set_storage_uri_spec [of "''///''" "env_raising (OtherError [])" "''prefix''"
        "init 10 False"]
      set_storage_uri_spec [of "[]" "env_returning NoResult" "''prefix''" "init 10 False"]
    by (simp add: a b falsy_def)
qed

section \<open>The flush threshold\<close>

text \<open>
  Claim C8. The setter of \<^verbatim>\<open>flush_threshold\<close> stores \<open>max 0 v\<close>, while \<^verbatim>\<open>__init__\<close> stores
  its argument as it is: a Reporter built with \<open>-1\<close> has the threshold \<open>-1\<close>.
\<close>

theorem init_threshold_unclamped:
  "flush_threshold (init (- 1) False) = - 1 \<and>
   flush_threshold (set_flush_threshold (- 1) (init 10 False)) = 0 \<and>
   flush_threshold (set_flush_threshold v r) = max 0 v"
  by (simp add: flush_threshold_def init_def set_flush_threshold_def)

section \<open>Leaving the scope\<close>

lemma flush_count:
  "count_list (calls (snd (flush E r))) Flush = Suc (count_list (calls r) Flush)"
  by (auto simp: flush_def priv_write_def Let_def add_async_result_def wait_for_results_def
      get_num_results_def split: sum.splits)

lemma flush_empty:
  "self_events r = [] \<Longrightarrow>
   fst (flush E r) = Returned \<and> self_events (snd (flush E r)) = [] \<and>
   writes (calls (snd (flush E r))) = writes (calls r)"
  by (auto simp: flush_def priv_write_def wait_for_results_def get_num_results_def writes_def)

lemma flush_idle:
  "self_events r = [] \<Longrightarrow> async_results r = [] \<Longrightarrow>
   flush E r = (Returned, r\<lparr>calls := calls r @ [Flush]\<rparr>)"
  by (simp add: flush_def priv_write_def get_num_results_def)

text \<open>
  Claim C4. \<^verbatim>\<open>__exit__\<close> without an exception is one call of \<^verbatim>\<open>flush\<close>: the trace gains
  exactly one entry into \<^verbatim>\<open>flush\<close>; on an empty buffer that flush returns, issues no
  write and leaves the buffer empty, and with nothing pending it changes nothing else.
  \<^verbatim>\<open>__exit__\<close> with an exception returns and leaves the Reporter, its buffer and its trace
  as they were: no flush, no write.
\<close>

theorem exit_spec:
  "dunder_exit E None r = flush E r \<and>
   count_list (calls (snd (dunder_exit E None r))) Flush = Suc (count_list (calls r) Flush) \<and>
   (self_events r = [] \<longrightarrow>
      fst (dunder_exit E None r) = Returned \<and>
      self_events (snd (dunder_exit E None r)) = [] \<and>
      writes (calls (snd (dunder_exit E None r))) = writes (calls r)) \<and>
   (self_events r = [] \<and> async_results r = [] \<longrightarrow>
      dunder_exit E None r = (Returned, r\<lparr>calls := calls r @ [Flush]\<rparr>)) \<and>
   dunder_exit E (Some exc_type) r = (Returned, r)"
  using flush_count [of E r] flush_empty [of r E] flush_idle [of r E]
  by (simp add: dunder_exit_def)

theorem exit_spec_witness:
  "dunder_exit (env_returning NoResult) None (init 10 False) =
     (Returned, (init 10 False)\<lparr>calls := [Flush]\<rparr>) \<and>
   dunder_exit (env_returning NoResult) None ((init 10 False)\<lparr>self_events := [loss 0.5 1]\<rparr>) =
     (Returned, (init 10 False)\<lparr>calls := [Flush, WriteEvents [loss 0.5 1] False None]\<rparr>) \<and>
   dunder_exit (env_returning NoResult) (Some ''KeyError'')
     ((init 10 False)\<lparr>self_events := [loss 0.5 1]\<rparr>) =
     (Returned, (init 10 False)\<lparr>self_events := [loss 0.5 1]\<rparr>)"
  using exit_spec [of "env_returning NoResult" "init 10 False" "''KeyError''"]
    exit_spec [of "env_returning NoResult" "(init 10 False)\<lparr>self_events := [loss 0.5 1]\<rparr>"
      "''KeyError''"]
  by (simp add: init_def flush_def priv_write_def Let_def env_returning_def get_num_results_def)

section \<open>Validation at the reporting entry points\<close>

lemma supplied_one: "supplied path matrix = 1 \<longleftrightarrow> (path = None) \<noteq> (matrix = None)"
  by (auto simp: supplied_def)

lemma priv_write_frame:
  assumes "priv_write E r = (out, r')"
  shows "self_flush_threshold r' = self_flush_threshold r \<and>
         set (self_events r') \<subseteq> set (self_events r)"
proof (cases "self_events r = []")
  case True
  with assms show ?thesis by (simp add: priv_write_empty)
next
  case False
  from priv_write_nonempty(4,5) [OF False assms] show ?thesis by simp
qed

lemma priv_report_frame:
  assumes "priv_report E ev r = (out, r')"
  shows "self_flush_threshold r' = self_flush_threshold r \<and>
         set (self_events r') \<subseteq> insert ev (set (self_events r))"
proof (cases "self_flush_threshold r \<le> int (length (self_events r)) + 1")
  case True
  then have "priv_write E (r\<lparr>self_events := self_events r @ [ev]\<rparr>) = (out, r')"
    using assms by (simp add: priv_report_reached)
  from priv_write_frame [OF this] show ?thesis by auto
next
  case False
  then have "priv_report E ev r = (Returned, r\<lparr>self_events := self_events r @ [ev]\<rparr>)"
    by (intro priv_report_below) simp
  with assms show ?thesis by auto
qed

lemma priv_report_keeps:
  assumes "well_formed ev" and "priv_report E ev r = (out, r')"
  shows "self_flush_threshold r' = self_flush_threshold r \<and>
         (list_all well_formed (self_events r) \<longrightarrow> list_all well_formed (self_events r'))"
  using priv_report_frame [OF assms(2)] assms(1) by (auto simp: list_all_iff)

lemma report_scalar_keeps:
  assumes "report_scalar E t s v i r = (out, r')"
  shows "self_flush_threshold r' = self_flush_threshold r \<and>
         (list_all well_formed (self_events r) \<longrightarrow> list_all well_formed (self_events r'))"
  using assms unfolding report_scalar_def by (intro priv_report_keeps) simp_all

lemma report_vector_keeps:
  assumes "report_vector E t s vs i r = (out, r')"
  shows "self_flush_threshold r' = self_flush_threshold r \<and>
         (list_all well_formed (self_events r) \<longrightarrow> list_all well_formed (self_events r'))"
proof (cases "is_iterable vs")
  case True
  then have "priv_report E
      (VectorEvent (priv_normalize_name t) (priv_normalize_name s) vs i) r = (out, r')"
    using assms by (simp add: report_vector_def)
  then show ?thesis using True by (intro priv_report_keeps) simp_all
next
  case False
  with assms show ?thesis by (simp add: report_vector_def)
qed

lemma report_plot_keeps:
  assumes "report_plot E t s plot i r = (out, r')"
  shows "self_flush_threshold r' = self_flush_threshold r \<and>
         (list_all well_formed (self_events r) \<longrightarrow> list_all well_formed (self_events r'))"
proof -
  have ev: "\<And>x. priv_report E
      (PlotEvent (priv_normalize_name t) (priv_normalize_name s) (PStr x) i) r = (out, r') \<Longrightarrow>
      ?thesis"
    by (rule priv_report_keeps) simp_all
  show ?thesis
  proof (cases plot)
    case (PDict d)
    show ?thesis
    proof (cases "json_dumps E d")
      case (Inl e)
      with assms PDict show ?thesis by (simp add: report_plot_def)
    next
      case (Inr x)
      with assms PDict show ?thesis by (intro ev [of x]) (simp add: report_plot_def)
    qed
  next
    case (PStr x)
    with assms show ?thesis by (intro ev [of x]) (simp add: report_plot_def)
  qed (use assms in \<open>simp_all add: report_plot_def\<close>)
qed

lemma report_image_keeps:
  assumes "report_image E t s src i r = (out, r')"
  shows "self_flush_threshold r' = self_flush_threshold r \<and>
         (list_all well_formed (self_events r) \<longrightarrow> list_all well_formed (self_events r'))"
  using assms unfolding report_image_def by (intro priv_report_keeps) simp_all

lemma report_image_and_upload_cases:
  "(falsy (self_storage_uri r) \<and> falsy upload_uri \<longrightarrow>
      report_image_and_upload E t s i path matrix upload_uri h r =
        (Raised (ValueError ''Upload configuration is required (use setup_upload())''), r)) \<and>
   (\<not> (falsy (self_storage_uri r) \<and> falsy upload_uri) \<and> supplied path matrix \<noteq> 1 \<longrightarrow>
      report_image_and_upload E t s i path matrix upload_uri h r =
        (Raised (ValueError ''Expected only one of [filename, matrix]''), r)) \<and>
   (\<not> (falsy (self_storage_uri r) \<and> falsy upload_uri) \<and> supplied path matrix = 1 \<longrightarrow>
      report_image_and_upload E t s i path matrix upload_uri h r =
        priv_report E
          (ImageEvent matrix upload_uri path (priv_normalize_name t) (priv_normalize_name s) i h)
          r)"
  by (simp add: report_image_and_upload_def)

lemma report_image_and_upload_keeps:
  assumes "report_image_and_upload E t s i path matrix u h r = (out, r')"
  shows "self_flush_threshold r' = self_flush_threshold r \<and>
         (list_all well_formed (self_events r) \<longrightarrow> list_all well_formed (self_events r'))"
proof (cases "\<not> (falsy (self_storage_uri r) \<and> falsy u) \<and> supplied path matrix = 1")
  case True
  then have "priv_report E
      (ImageEvent matrix u path (priv_normalize_name t) (priv_normalize_name s) i h) r = (out, r')"
    using assms by (auto simp: report_image_and_upload_def split: if_splits)
  then show ?thesis using True by (intro priv_report_keeps) simp_all
next
  case False
  with assms show ?thesis by (auto simp: report_image_and_upload_def split: if_splits)
qed

lemma report_image_plot_and_upload_keeps:
  assumes "report_image_plot_and_upload E t s i path matrix u h r = (out, r')"
  shows "self_flush_threshold r' = self_flush_threshold r \<and>
         (list_all well_formed (self_events r) \<longrightarrow> list_all well_formed (self_events r'))"
proof (cases "\<not> (falsy u \<and> falsy (self_storage_uri r)) \<and> supplied path matrix = 1")
  case False
  with assms show ?thesis
    by (auto simp: report_image_plot_and_upload_def split: if_splits)
next
  case True
  let ?ev = "ImageEvent matrix u path (priv_normalize_name t) (priv_normalize_name s) i h"
  have wf: "well_formed ?ev" using True by simp
  obtain out1 r1 where p: "priv_report E ?ev r = (out1, r1)" by (cases "priv_report E ?ev r")
  note k1 = priv_report_keeps [OF wf p]
  show ?thesis
  proof (cases "get_target_full_upload_uri E ?ev
                  (if falsy u then self_storage_uri r else u) (storage_key_prefix E)")
    case (Inl e)
    with assms True show ?thesis by (simp add: report_image_plot_and_upload_def Let_def)
  next
    case (Inr url)
    show ?thesis
    proof (cases out1)
      case (Raised e)
      with assms True Inr p k1 show ?thesis
        by (simp add: report_image_plot_and_upload_def Let_def)
    next
      case Returned
      show ?thesis
      proof (cases "\<exists>ts w h'. title_slash_series t s = Inr ts \<and> shape_or matrix 1 640 = Inr w \<and>
                      shape_or matrix 0 480 = Inr h'")
        case False
        with assms True Inr p k1 Returned show ?thesis
          by (auto simp: report_image_plot_and_upload_def Let_def split: sum.splits)
      next
        case yes: True
        then obtain ts w h' where a: "title_slash_series t s = Inr ts"
          "shape_or matrix 1 640 = Inr w" "shape_or matrix 0 480 = Inr h'" by blast
        have "report_plot E (priv_normalize_name t) (priv_normalize_name s)
                (PDict (create_image_plot E url ts w h')) i r1 = (out, r')"
          using assms True Inr p Returned a
          by (simp add: report_image_plot_and_upload_def Let_def)
        from report_plot_keeps [OF this] k1 show ?thesis by simp
      qed
    qed
  qed
qed

lemma flush_keeps:
  assumes "flush E r = (out, r')"
  shows "self_flush_threshold r' = self_flush_threshold r \<and>
         (list_all well_formed (self_events r) \<longrightarrow> list_all well_formed (self_events r'))"
proof -
  obtain out1 r1 where w: "priv_write E (r\<lparr>calls := calls r @ [Flush]\<rparr>) = (out1, r1)"
    by (cases "priv_write E (r\<lparr>calls := calls r @ [Flush]\<rparr>)")
  from priv_write_frame [OF w]
  have k: "self_flush_threshold r1 = self_flush_threshold r \<and>
           (list_all well_formed (self_events r) \<longrightarrow> list_all well_formed (self_events r1))"
    by (auto simp: list_all_iff)
  show ?thesis
    using assms w k
    by (cases out1) (auto simp: flush_def wait_for_results_def split: if_splits)
qed

lemma step_keeps:
  assumes "step E x r = (out, r')"
  shows "(list_all well_formed (self_events r) \<longrightarrow> list_all well_formed (self_events r')) \<and>
         (0 \<le> self_flush_threshold r \<longrightarrow> 0 \<le> self_flush_threshold r')"
proof (cases x)
  case (ReportScalar t s v i)
  with assms report_scalar_keeps [of E t s v i r out r'] show ?thesis by simp
next
  case (ReportVector t s vs i)
  with assms report_vector_keeps [of E t s vs i r out r'] show ?thesis by simp
next
  case (ReportPlot t s p i)
  with assms report_plot_keeps [of E t s p i r out r'] show ?thesis by simp
next
  case (ReportImage t s src i)
  with assms report_image_keeps [of E t s src i r out r'] show ?thesis by simp
next
  case (ReportImageAndUpload t s i p m u h)
  with assms report_image_and_upload_keeps [of E t s i p m u h r out r'] show ?thesis by simp
next
  case (ReportImagePlotAndUpload t s i p m u h)
  with assms report_image_plot_and_upload_keeps [of E t s i p m u h r out r'] show ?thesis
    by simp
next
  case (ReportHistogram t s d i)
  with assms report_plot_keeps [of E _ _ "PDict d" i r out r'] show ?thesis
    by (simp add: report_histogram_def)
next
  case (ReportLinePlot t d i)
  with assms report_plot_keeps [of E _ _ "PDict d" i r out r'] show ?thesis
    by (simp add: report_line_plot_def)
next
  case (Report2dScatter t s d i)
  with assms report_plot_keeps [of E _ _ "PDict d" i r out r'] show ?thesis
    by (simp add: report_2d_scatter_def)
next
  case (Report3dScatter t s d i)
  with assms report_plot_keeps [of E _ _ "PDict d" i r out r'] show ?thesis
    by (simp add: report_3d_scatter_def)
next
  case (ReportValueMatrix t s d i)
  with assms report_plot_keeps [of E _ _ "PDict d" i r out r'] show ?thesis
    by (simp add: report_value_matrix_def)
next
  case (ReportValueSurface t s d i)
  with assms report_plot_keeps [of E _ _ "PDict d" i r out r'] show ?thesis
    by (auto simp: report_value_surface_def split: sum.splits)
next
  case CallFlush
  with assms flush_keeps [of E r out r'] show ?thesis by simp
next
  case (SetFlushThreshold v)
  with assms show ?thesis by (auto simp: set_flush_threshold_def)
next
  case (SetAsyncEnable v)
  with assms show ?thesis by (auto simp: set_async_enable_def)
next
  case (SetStorageUri v)
  with assms show ?thesis by (auto simp: priv_set_storage_uri_def)
next
  case (ExitScope exc_type)
  with assms flush_keeps [of E r out r'] show ?thesis
    by (auto simp: dunder_exit_def split: if_splits)
qed

lemma exec_keeps:
  "(list_all well_formed (self_events r) \<longrightarrow> list_all well_formed (self_events (exec E xs r))) \<and>
   (0 \<le> self_flush_threshold r \<longrightarrow> 0 \<le> self_flush_threshold (exec E xs r))"
proof (induction xs arbitrary: r)
  case Nil
  show ?case by simp
next
  case (Cons x xs)
  obtain out r1 where s: "step E x r = (out, r1)" by (cases "step E x r")
  from step_keeps [OF s] Cons.IH [of r1] show ?case by (simp add: s)
qed

text \<open>
  Claim C7. A call with a malformed payload raises before anything is appended: the
  Reporter after the call is the Reporter before it. This holds of \<^verbatim>\<open>report_vector\<close> with
  a value that is not iterable, of \<^verbatim>\<open>report_plot\<close> with a plot that is neither a string
  nor a dict, and of the two image-and-upload reporters when the number of supplied
  sources is not one. Every operation keeps a buffer of well-formed events well-formed,
  so the buffer of a Reporter holds well-formed events in every state it reaches.
\<close>

theorem validation_before_admission:
  "(\<not> is_iterable vs \<longrightarrow>
      report_vector E t s vs i r = (Raised (ValueError ''values: expected an iterable''), r)) \<and>
   ((\<forall>x. plot \<noteq> PStr x) \<and> (\<forall>d. plot \<noteq> PDict d) \<longrightarrow>
      report_plot E t s plot i r = (Raised (ValueError ''Plot should be a string or a dict''), r)) \<and>
   (supplied path matrix \<noteq> 1 \<longrightarrow>
      (\<exists>msg. report_image_and_upload E t s i path matrix u h r = (Raised (ValueError msg), r)) \<and>
      (\<exists>msg. report_image_plot_and_upload E t s i path matrix u h r =
         (Raised (ValueError msg), r))) \<and>
   (list_all well_formed (self_events r) \<longrightarrow>
      list_all well_formed (self_events (snd (step E x r)))) \<and>
   list_all well_formed (self_events (exec E xs (init T a)))"
proof (intro conjI impI)
  assume "\<not> is_iterable vs"
  then show "report_vector E t s vs i r =
      (Raised (ValueError ''values: expected an iterable''), r)"
    by (simp add: report_vector_def)
next
  assume "(\<forall>x. plot \<noteq> PStr x) \<and> (\<forall>d. plot \<noteq> PDict d)"
  then show "report_plot E t s plot i r =
      (Raised (ValueError ''Plot should be a string or a dict''), r)"
    by (cases plot) (simp_all add: report_plot_def)
next
  assume "supplied path matrix \<noteq> 1"
  then show "\<exists>msg. report_image_and_upload E t s i path matrix u h r =
      (Raised (ValueError msg), r)"
    by (auto simp: report_image_and_upload_def)
next
  assume "supplied path matrix \<noteq> 1"
  then show "\<exists>msg. report_image_plot_and_upload E t s i path matrix u h r =
      (Raised (ValueError msg), r)"
    by (auto simp: report_image_plot_and_upload_def)
next
  assume w: "list_all well_formed (self_events r)"
  obtain out r' where st: "step E x r = (out, r')" by (cases "step E x r")
  from step_keeps [OF st] w show "list_all well_formed (self_events (snd (step E x r)))"
    by (simp add: st)
next
  have "list_all well_formed (self_events (init T a))" by (simp add: init_def)
  with exec_keeps [of "init T a" E xs]
  show "list_all well_formed (self_events (exec E xs (init T a)))" by blast
qed

theorem validation_before_admission_witness:
  "report_vector (env_returning NoResult) (Some ''t'') (Some ''s'') (PInt 3) 1
     ((init 10 False)\<lparr>self_events := [loss 0.5 1]\<rparr>) =
     (Raised (ValueError ''values: expected an iterable''),
      (init 10 False)\<lparr>self_events := [loss 0.5 1]\<rparr>) \<and>
   report_plot (env_returning NoResult) (Some ''t'') (Some ''s'') (PList []) 1
     ((init 10 False)\<lparr>self_events := [loss 0.5 1]\<rparr>) =
     (Raised (ValueError ''Plot should be a string or a dict''),
      (init 10 False)\<lparr>self_events := [loss 0.5 1]\<rparr>) \<and>
   (\<exists>msg. report_image_and_upload (env_returning NoResult) (Some ''t'') (Some ''s'') 1
      (Some ''a.png'') (Some pixels) (Some ''s3://bucket'') None
      ((init 10 False)\<lparr>self_events := [loss 0.5 1]\<rparr>) =
      (Raised (ValueError msg), (init 10 False)\<lparr>self_events := [loss 0.5 1]\<rparr>)) \<and>
   list_all well_formed (self_events (snd (step (env_returning NoResult)
     (ReportVector (Some ''t'') (Some ''s'') (PList [PFloat 0.5]) 1)
     ((init 10 False)\<lparr>self_events := [loss 0.5 1]\<rparr>))))"
  using validation_before_admission [of "PInt 3" "env_returning NoResult" "Some ''t''"
      "Some ''s''" 1 "(init 10 False)\<lparr>self_events := [loss 0.5 1]\<rparr>" "PList []"
      "Some ''a.png''" "Some pixels" "Some ''s3://bucket''" None
      "ReportVector (Some ''t'') (Some ''s'') (PList [PFloat 0.5]) 1" "[]" 10 False]
  by (auto simp: supplied_def init_def loss_def)

section \<open>Image reports with upload\<close>

lemma init_fields:
  "self_flush_threshold (init T a) = T"
  "self_events (init T a) = []"
  "self_storage_uri (init T a) = None"
  "self_async_enable (init T a) = a"
  "async_results (init T a) = []"
  "calls (init T a) = []"
  by (simp_all add: init_def)

lemma env_returning_write: "write_events (env_returning res) cs evs a u = Inr res"
  by (simp add: env_returning_def)

text \<open>
  Claim C6, amended. \<^verbatim>\<open>report_image_and_upload\<close> first checks the upload destination:
  with neither a stored storage URI nor a per-call upload URI (each \<^verbatim>\<open>None\<close> or empty) it
  raises the configuration failure, whatever path and matrix are. With a destination it
  raises the validation failure exactly when the number of supplied sources among path
  and matrix is not one. With a destination and exactly one source it raises neither and
  goes on as \<^verbatim>\<open>_report\<close> of the image event: below the threshold the call returns with
  the event appended, and at the threshold the buffer with the event is written and, when
  that write returns, the call returns. \<^verbatim>\<open>report_image_plot_and_upload\<close> makes the same
  two checks in the same order.
\<close>

theorem image_upload_checks:
  "(falsy (self_storage_uri r) \<and> falsy upload_uri \<longrightarrow>
      report_image_and_upload E t s i path matrix upload_uri h r =
        (Raised (ValueError ''Upload configuration is required (use setup_upload())''), r) \<and>
      report_image_plot_and_upload E t s i path matrix upload_uri h r =
        (Raised (ValueError ''Upload configuration is required (use setup_upload())''), r)) \<and>
   (\<not> (falsy (self_storage_uri r) \<and> falsy upload_uri) \<and> supplied path matrix \<noteq> 1 \<longrightarrow>
      report_image_and_upload E t s i path matrix upload_uri h r =
        (Raised (ValueError ''Expected only one of [filename, matrix]''), r) \<and>
      report_image_plot_and_upload E t s i path matrix upload_uri h r =
        (Raised (ValueError ''Expected only one of [filename, matrix]''), r)) \<and>
   (\<not> (falsy (self_storage_uri r) \<and> falsy upload_uri) \<and> supplied path matrix = 1 \<longrightarrow>
      report_image_and_upload E t s i path matrix upload_uri h r =
        priv_report E
          (ImageEvent matrix upload_uri path (priv_normalize_name t) (priv_normalize_name s) i h)
          r) \<and>
   (\<not> (falsy (self_storage_uri r) \<and> falsy upload_uri) \<and> supplied path matrix = 1 \<and>
    int (length (self_events r)) + 1 < self_flush_threshold r \<longrightarrow>
      report_image_and_upload E t s i path matrix upload_uri h r =
        (Returned,
         r\<lparr>self_events := self_events r @
            [ImageEvent matrix upload_uri path (priv_normalize_name t) (priv_normalize_name s)
               i h]\<rparr>)) \<and>
   (\<not> (falsy (self_storage_uri r) \<and> falsy upload_uri) \<and> supplied path matrix = 1 \<and>
    self_flush_threshold r \<le> int (length (self_events r)) + 1 \<and>
    write_events E (calls r)
      (self_events r @
         [ImageEvent matrix upload_uri path (priv_normalize_name t) (priv_normalize_name s) i h])
      (self_async_enable r) (self_storage_uri r) = Inr res \<longrightarrow>
      fst (report_image_and_upload E t s i path matrix upload_uri h r) = Returned \<and>
      self_events (snd (report_image_and_upload E t s i path matrix upload_uri h r)) = [] \<and>
      WriteEvents
        (self_events r @
           [ImageEvent matrix upload_uri path (priv_normalize_name t) (priv_normalize_name s)
              i h])
        (self_async_enable r) (self_storage_uri r)
        \<in> set (calls (snd (report_image_and_upload E t s i path matrix upload_uri h r)))) \<and>
   (supplied path matrix = 1 \<longleftrightarrow> (path = None) \<noteq> (matrix = None))"
proof -
  let ?ev = "ImageEvent matrix upload_uri path (priv_normalize_name t) (priv_normalize_name s) i h"
  let ?ok = "\<not> (falsy (self_storage_uri r) \<and> falsy upload_uri) \<and> supplied path matrix = 1"
  note c = report_image_and_upload_cases [of r upload_uri E t s i path matrix h]
  have plot: "(falsy (self_storage_uri r) \<and> falsy upload_uri \<longrightarrow>
      report_image_plot_and_upload E t s i path matrix upload_uri h r =
        (Raised (ValueError ''Upload configuration is required (use setup_upload())''), r)) \<and>
     (\<not> (falsy (self_storage_uri r) \<and> falsy upload_uri) \<and> supplied path matrix \<noteq> 1 \<longrightarrow>
      report_image_plot_and_upload E t s i path matrix upload_uri h r =
        (Raised (ValueError ''Expected only one of [filename, matrix]''), r))"
    by (auto simp: report_image_plot_and_upload_def)
  have below: "report_image_and_upload E t s i path matrix upload_uri h r =
        (Returned, r\<lparr>self_events := self_events r @ [?ev]\<rparr>)"
    if "?ok" "int (length (self_events r)) + 1 < self_flush_threshold r"
    using c that priv_report_below [OF that(2), of E ?ev] by simp
  have reached: "fst (report_image_and_upload E t s i path matrix upload_uri h r) = Returned \<and>
      self_events (snd (report_image_and_upload E t s i path matrix upload_uri h r)) = [] \<and>
      WriteEvents (self_events r @ [?ev]) (self_async_enable r) (self_storage_uri r)
        \<in> set (calls (snd (report_image_and_upload E t s i path matrix upload_uri h r)))"
    if "?ok" "self_flush_threshold r \<le> int (length (self_events r)) + 1"
      "write_events E (calls r) (self_events r @ [?ev])
         (self_async_enable r) (self_storage_uri r) = Inr res"
  proof -
    let ?r1 = "r\<lparr>self_events := self_events r @ [?ev]\<rparr>"
    have "report_image_and_upload E t s i path matrix upload_uri h r = priv_write E ?r1"
      using c that(1) priv_report_reached [OF that(2), of E ?ev] by simp
    moreover have "self_events ?r1 \<noteq> []" by simp
    moreover have "write_events E (calls ?r1) (self_events ?r1) (self_async_enable ?r1)
        (self_storage_uri ?r1) = Inr res"
      using that(3) by simp
    ultimately show ?thesis
      using priv_write_returns [of ?r1 E res] by simp
  qed
  show ?thesis
    using c plot below reached supplied_one [of path matrix] by blast
qed

text \<open>
  The claim C6 as stated fails where no upload destination is set. With neither path nor
  matrix the call raises the configuration failure, not the validation failure; with
  exactly one of them it raises although the sources are well-formed.
\<close>

theorem image_upload_checks_counterexample:
  "supplied None None \<noteq> 1 \<and>
   report_image_and_upload (env_returning NoResult) (Some ''img'') (Some ''s'') 1
     None None None None (init 10 False) =
     (Raised (ValueError ''Upload configuration is required (use setup_upload())''),
      init 10 False) \<and>
   ValueError ''Upload configuration is required (use setup_upload())'' \<noteq>
     ValueError ''Expected only one of [filename, matrix]'' \<and>
   supplied (Some ''a.png'') None = 1 \<and>
   report_image_and_upload (env_returning NoResult) (Some ''img'') (Some ''s'') 1
     (Some ''a.png'') None None None (init 10 False) =
     (Raised (ValueError ''Upload configuration is required (use setup_upload())''),
      init 10 False)"
  by (simp add: supplied_def report_image_and_upload_def init_def falsy_def)

theorem image_upload_checks_witness:
  "report_image_and_upload (env_returning NoResult) (Some ''img.v1'') (Some ''s'') 1
     (Some ''a.png'') None (Some ''s3://bucket'') None (init 10 False) =
     (Returned,
      (init 10 False)\<lparr>self_events :=
         [ImageEvent None (Some ''s3://bucket'') (Some ''a.png'') (Some ''img/v1'') (Some ''s'')
            1 None]\<rparr>) \<and>
   report_image_and_upload (env_returning NoResult) (Some ''img'') (Some ''s'') 1
     (Some ''a.png'') (Some pixels) (Some ''s3://bucket'') None (init 10 False) =
     (Raised (ValueError ''Expected only one of [filename, matrix]''), init 10 False) \<and>
   report_image_and_upload (env_returning NoResult) (Some ''img'') (Some ''s'') 1
     None (Some pixels) (Some []) None (init 10 False) =
     (Raised (ValueError ''Upload configuration is required (use setup_upload())''),
      init 10 False) \<and>
   fst (report_image_and_upload (env_returning NoResult) (Some ''img'') (Some ''s'') 1
     None (Some pixels) (Some ''s3://bucket'') None (init 1 False)) = Returned \<and>
   self_events (snd (report_image_and_upload (env_returning NoResult) (Some ''img'') (Some ''s'') 1
     None (Some pixels) (Some ''s3://bucket'') None (init 1 False))) = []"
proof -
  note f = init_fields falsy_def supplied_def env_returning_write normalize_some
  have a: "report_image_and_upload (env_returning NoResult) (Some ''img.v1'') (Some ''s'') 1
     (Some ''a.png'') None (Some ''s3://bucket'') None (init 10 False) =
     (Returned,
      (init 10 False)\<lparr>self_events :=
         [ImageEvent None (Some ''s3://bucket'') (Some ''a.png'') (Some ''img/v1'') (Some ''s'')
            1 None]\<rparr>)"
    using image_upload_checks [of "init 10 False" "Some ''s3://bucket''" "env_returning NoResult"
      "Some ''img.v1''" "Some ''s''" 1 "Some ''a.png''" None None NoResult]
    by (auto simp: f)
  have b: "report_image_and_upload (env_returning NoResult) (Some ''img'') (Some ''s'') 1
     (Some ''a.png'') (Some pixels) (Some ''s3://bucket'') None (init 10 False) =
     (Raised (ValueError ''Expected only one of [filename, matrix]''), init 10 False)"
    using image_upload_checks [of "init 10 False" "Some ''s3://bucket''" "env_returning NoResult"
      "Some ''img''" "Some ''s''" 1 "Some ''a.png''" "Some pixels" None NoResult]
    by (auto simp: f)
  have c: "report_image_and_upload (env_returning NoResult) (Some ''img'') (Some ''s'') 1
     None (Some pixels) (Some []) None (init 10 False) =
     (Raised (ValueError ''Upload configuration is required (use setup_upload())''),
      init 10 False)"
    using image_upload_checks [of "init 10 False" "Some []" "env_returning NoResult"
      "Some ''img''" "Some ''s''" 1 None "Some pixels" None NoResult]
    by (auto simp: f)
  have d: "fst (report_image_and_upload (env_returning NoResult) (Some ''img'') (Some ''s'') 1
     None (Some pixels) (Some ''s3://bucket'') None (init 1 False)) = Returned \<and>
   self_events (snd (report_image_and_upload (env_returning NoResult) (Some ''img'') (Some ''s'') 1
     None (Some pixels) (Some ''s3://bucket'') None (init 1 False))) = []"
    using image_upload_checks [of "init 1 False" "Some ''s3://bucket''" "env_returning NoResult"
      "Some ''img''" "Some ''s''" 1 None "Some pixels" None NoResult]
    by (auto simp: f)
  from a b c d show ?thesis by simp
qed

section \<open>The flush threshold over a run\<close>

text \<open>
  A Reporter constructed with a threshold of at least 0 keeps a threshold of at least 0
  through every sequence of operations: only the setter assigns the field, and it clamps.
\<close>

theorem threshold_stays_nonnegative:
  "0 \<le> T \<Longrightarrow> 0 \<le> flush_threshold (exec E xs (init T a))"
  using exec_keeps [of "init T a" E xs] by (simp add: flush_threshold_def init_fields)

theorem threshold_stays_nonnegative_witness:
  "0 \<le> flush_threshold (exec (env_returning NoResult)
     [SetFlushThreshold (- 5), ReportScalar (Some ''loss'') (Some ''train'') 0.5 1, CallFlush]
     (init 10 False))"
  using threshold_stays_nonnegative [of 10 "env_returning NoResult"
     "[SetFlushThreshold (- 5), ReportScalar (Some ''loss'') (Some ''train'') 0.5 1, CallFlush]"
     False]
  by simp

section \<open>Every reporting call\<close>









end
